theory Spec2Isabelle
  imports Main "HOL-Library.Word"
begin

section \<open>The TLV element of \<^verbatim>\<open>src/encoding/block.hpp\<close>\<close>

text \<open>
  A shallow embedding of \<^verbatim>\<open>class ndn::Block\<close>. Every inline member function of the
  header is a HOL function of the same name over the datatype \<open>block\<close>; a function that
  can \<^verbatim>\<open>throw Error(...)\<close> returns \<open>error + 'a\<close> with the thrown value on the left.
\<close>

subsection \<open>Data model\<close>

type_synonym u8 = "8 word"
type_synonym u32 = "32 word"

text \<open>\<^verbatim>\<open>size_t\<close> on the LP64 targets the library is built for.\<close>
type_synonym size_t = "64 word"

text \<open>\<^verbatim>\<open>Buffer\<close> is a \<^verbatim>\<open>std::vector<uint8_t>\<close>.\<close>
type_synonym buffer = "u8 list"

text \<open>
  A \<^verbatim>\<open>Buffer::const_iterator\<close>: either the value-initialised iterator
  \<^verbatim>\<open>Buffer::const_iterator()\<close>, or the position \<open>At i\<close>, \<open>i\<close> bytes after the start of the
  buffer the element refers to (\<open>At (length buf)\<close> is \<^verbatim>\<open>buf.end()\<close>).
\<close>
datatype buf_iter = Singular | At nat

text \<open>
  \<^verbatim>\<open>struct Error : std::runtime_error\<close> carries its \<^verbatim>\<open>what()\<close> message. \<open>Undefined\<close> is
  not an exception: it marks the one place where the header has undefined behaviour on a
  state the fields can hold and the result would depend on addresses (subtracting a
  value-initialised iterator and a position).
  The last three are the decode error kinds of section 7 of the specification; the code
  that raises them (\<^verbatim>\<open>tlv.hpp\<close>, \<^verbatim>\<open>block.cpp\<close>) is outside the header.
\<close>
datatype error = Error string | Undefined | MalformedHeader | LengthOverrun | LengthUnderrun

text \<open>
  The protected members of \<^verbatim>\<open>Block\<close>, in declaration order. \<^verbatim>\<open>m_buffer\<close> is a
  \<^verbatim>\<open>shared_ptr<const Buffer>\<close>: \<open>None\<close> is the null pointer. \<^verbatim>\<open>m_subBlocks\<close> is a
  \<^verbatim>\<open>std::vector<Block>\<close>.
\<close>
datatype block = Block
  (m_buffer: "buffer option")
  (m_type: u32)
  (m_begin: buf_iter)
  (m_end: buf_iter)
  (m_size: u32)
  (m_value_begin: buf_iter)
  (m_value_end: buf_iter)
  (m_subBlocks: "block list")

text \<open>An \<^verbatim>\<open>element_iterator\<close> is an index into \<^verbatim>\<open>m_subBlocks\<close>; \<^verbatim>\<open>end()\<close> is its length.\<close>
type_synonym element_iterator = nat

text \<open>\<^verbatim>\<open>std::numeric_limits<uint32_t>::max()\<close>\<close>
definition uint32_max :: u32 where
  "uint32_max = 0xFFFFFFFF"

subsection \<open>State predicates and reset\<close>

definition empty_block :: "block \<Rightarrow> bool" where
  "empty_block b \<longleftrightarrow> m_type b = uint32_max"

definition hasWire :: "block \<Rightarrow> bool" where
  "hasWire b \<longleftrightarrow> m_buffer b \<noteq> None \<and> m_begin b \<noteq> m_end b"

definition hasValue :: "block \<Rightarrow> bool" where
  "hasValue b \<longleftrightarrow> m_buffer b \<noteq> None"

text \<open>\<^verbatim>\<open>reset()\<close> assigns every member but \<^verbatim>\<open>m_size\<close>.\<close>
fun reset :: "block \<Rightarrow> block" where
  "reset (Block buf t b e sz vb ve subs) =
     Block None uint32_max Singular Singular sz Singular Singular []"

definition type_block :: "block \<Rightarrow> u32" where
  "type_block b = m_type b"

subsection \<open>Lookup and mutation of the children\<close>

text \<open>\<^verbatim>\<open>boost::lexical_cast<std::string>\<close> of an unsigned integer: its decimal digits.\<close>
fun lexical_cast_string :: "nat \<Rightarrow> string" where
  "lexical_cast_string n =
     (if n < 10 then [''0123456789'' ! n]
      else lexical_cast_string (n div 10) @ [''0123456789'' ! (n mod 10)])"

declare lexical_cast_string.simps [simp del]

definition get_error :: "u32 \<Rightarrow> error" where
  "get_error t =
     Error (''(Block::get) Requested a non-existed type ['' @ lexical_cast_string (unat t)
            @ ''] from Block'')"

text \<open>The \<^verbatim>\<open>for\<close> loop of \<^verbatim>\<open>get\<close>: the first element whose type is \<open>t\<close>, if the loop returns.\<close>
fun get_loop :: "block list \<Rightarrow> u32 \<Rightarrow> block option" where
  "get_loop [] t = None"
| "get_loop (i # rest) t = (if type_block i = t then Some i else get_loop rest t)"

definition get :: "block \<Rightarrow> u32 \<Rightarrow> error + block" where
  "get b t = (case get_loop (m_subBlocks b) t of
                Some i \<Rightarrow> Inr i
              | None \<Rightarrow> Inl (get_error t))"

definition element_begin :: "block \<Rightarrow> element_iterator" where
  "element_begin b = 0"

definition element_end :: "block \<Rightarrow> element_iterator" where
  "element_end b = length (m_subBlocks b)"

text \<open>The \<^verbatim>\<open>for\<close> loop of \<^verbatim>\<open>find\<close>, the iterator \<open>i\<close> running from \<^verbatim>\<open>begin()\<close>.\<close>
fun find_loop :: "block list \<Rightarrow> element_iterator \<Rightarrow> u32 \<Rightarrow> element_iterator option" where
  "find_loop [] i t = None"
| "find_loop (x # rest) i t = (if type_block x = t then Some i else find_loop rest (Suc i) t)"

definition find_block :: "block \<Rightarrow> u32 \<Rightarrow> element_iterator" where
  "find_block b t = (case find_loop (m_subBlocks b) (element_begin b) t of
                       Some i \<Rightarrow> i
                     | None \<Rightarrow> element_end b)"

text \<open>The loop of \<^verbatim>\<open>remove\<close>, filling \<^verbatim>\<open>newContainer\<close> by \<^verbatim>\<open>push_back\<close>.\<close>
fun remove_loop :: "block list \<Rightarrow> u32 \<Rightarrow> block list \<Rightarrow> block list" where
  "remove_loop [] t newContainer = newContainer"
| "remove_loop (i # rest) t newContainer =
     remove_loop rest t (if type_block i \<noteq> t then newContainer @ [i] else newContainer)"

fun remove_block :: "block \<Rightarrow> u32 \<Rightarrow> block" where
  "remove_block (Block buf ty b e sz vb ve subs) t =
     Block buf ty b e sz vb ve (remove_loop subs t [])"

fun push_back :: "block \<Rightarrow> block \<Rightarrow> block" where
  "push_back (Block buf ty b e sz vb ve subs) element =
     Block buf ty b e sz vb ve (subs @ [element])"

definition getAll :: "block \<Rightarrow> block list" where
  "getAll b = m_subBlocks b"

definition elements :: "block \<Rightarrow> block list" where
  "elements b = m_subBlocks b"

subsection \<open>Accessors\<close>

definition begin_block :: "block \<Rightarrow> error + buf_iter" where
  "begin_block b =
     (if \<not> hasWire b then Inl (Error ''Underlying wire buffer is empty'')
      else Inr (m_begin b))"

definition end_block :: "block \<Rightarrow> error + buf_iter" where
  "end_block b =
     (if \<not> hasWire b then Inl (Error ''Underlying wire buffer is empty'')
      else Inr (m_end b))"

text \<open>\<^verbatim>\<open>m_size\<close> is a \<^verbatim>\<open>uint32_t\<close>, returned as \<^verbatim>\<open>size_t\<close>.\<close>
definition size_block :: "block \<Rightarrow> error + size_t" where
  "size_block b =
     (if hasWire b \<or> hasValue b then Inr (ucast (m_size b))
      else Inl (Error ''Block size cannot be determined (undefined block size)''))"

definition value_begin :: "block \<Rightarrow> error + buf_iter" where
  "value_begin b =
     (if \<not> hasValue b then Inl (Error ''(Block::value_begin) Underlying value buffer is empty'')
      else Inr (m_value_begin b))"

definition value_end :: "block \<Rightarrow> error + buf_iter" where
  "value_end b =
     (if \<not> hasValue b then Inl (Error ''(Block::value_end) Underlying value buffer is empty'')
      else Inr (m_value_end b))"

text \<open>\<^verbatim>\<open>&*m_begin\<close>: the address of the byte the iterator is at, kept as the position.\<close>
definition wire :: "block \<Rightarrow> error + buf_iter" where
  "wire b =
     (if \<not> hasWire b then Inl (Error ''(Block::wire) Underlying wire buffer is empty'')
      else Inr (m_begin b))"

definition value_block :: "block \<Rightarrow> error + buf_iter" where
  "value_block b =
     (if \<not> hasValue b then Inl (Error ''(Block::value) Underlying value buffer is empty'')
      else Inr (m_value_begin b))"

text \<open>
  \<^verbatim>\<open>last - first\<close> on two iterators, a \<^verbatim>\<open>ptrdiff_t\<close>. Two positions give the signed
  distance and two value-initialised iterators are equal; one of each is undefined.
\<close>
fun iter_diff :: "buf_iter \<Rightarrow> buf_iter \<Rightarrow> int option" where
  "iter_diff (At j) (At i) = Some (int j - int i)"
| "iter_diff Singular Singular = Some 0"
| "iter_diff (At j) Singular = None"
| "iter_diff Singular (At i) = None"

text \<open>The difference is converted to \<^verbatim>\<open>size_t\<close> on return, modulo \<open>2 ^ 64\<close>.\<close>
definition value_size :: "block \<Rightarrow> error + size_t" where
  "value_size b =
     (if \<not> hasValue b then Inr 0
      else case iter_diff (m_value_end b) (m_value_begin b) of
             Some d \<Rightarrow> Inr (word_of_int d)
           | None \<Rightarrow> Inl Undefined)"

subsection \<open>Example elements\<close>

text \<open>
  Three children of types 1, 2 and 1 that carry value buffers but no header, a parent of
  type 5 that holds them and has no buffer of its own, and an element of type 5 that lies
  encoded in a buffer of nine bytes.
\<close>
definition example_children :: "block list" where
  "example_children =
     [Block (Some [1, 2, 3]) 1 (At 3) (At 3) 5 (At 0) (At 3) [],
      Block (Some []) 2 (At 0) (At 0) 2 (At 0) (At 0) [],
      Block (Some [9]) 1 (At 1) (At 1) 3 (At 0) (At 1) []]"

definition example_parent :: block where
  "example_parent = Block None 5 Singular Singular 2 Singular Singular example_children"

definition example_encoded :: block where
  "example_encoded =
     Block (Some [5, 7, 1, 3, 1, 2, 3, 2, 0]) 5 (At 0) (At 9) 9 (At 2) (At 9) []"

section \<open>The codec outside the header\<close>

text \<open>
  \<^verbatim>\<open>block.hpp\<close> declares the constructors and \<^verbatim>\<open>encode()\<close>; their bodies (\<^verbatim>\<open>block.cpp\<close>)
  and the VarNumber routines (\<^verbatim>\<open>tlv.hpp\<close>) are not among the sources. This section models
  them from the specification, section by section.
\<close>

subsection \<open>VarNumber (specification, section 6)\<close>

text \<open>
  Modelled from the spec: the big-endian values of section 6, part of the missing
  VarNumber routines. The \<open>k\<close> low-order bytes of \<open>n\<close>, most significant first, and the
  value of such bytes.
\<close>
fun be_bytes :: "nat \<Rightarrow> nat \<Rightarrow> u8 list" where
  "be_bytes 0 n = []"
| "be_bytes (Suc k) n = of_nat (n div 256 ^ k) # be_bytes k n"


text \<open>
  Modelled from the spec: the VarNumber encoder of \<^verbatim>\<open>tlv.hpp\<close> is missing. Section 6:
  values 0 to 252 encode as a single byte equal to the value; 253 to 65535 as \<open>0xFD\<close> and
  a 2-byte big-endian value; up to \<open>2 ^ 32 - 1\<close> as \<open>0xFE\<close> and a 4-byte big-endian value;
  larger values as \<open>0xFF\<close> and an 8-byte big-endian value.
\<close>
definition varnumber_encode :: "nat \<Rightarrow> u8 list" where
  "varnumber_encode n =
     (if n \<le> 252 then [of_nat n]
      else if n \<le> 65535 then 0xFD # be_bytes 2 n
      else if n \<le> 2 ^ 32 - 1 then 0xFE # be_bytes 4 n
      else 0xFF # be_bytes 8 n)"



subsection \<open>Byte ranges of an element (specification, section 3)\<close>





subsection \<open>Construction (specification, section 4.1)\<close>











subsection \<open>encode (specification, section 4.3)\<close>


section \<open>Properties of the header's functions\<close>

subsection \<open>The search loops\<close>

lemma get_loop_None: "get_loop subs t = None \<longleftrightarrow> (\<forall>c \<in> set subs. m_type c \<noteq> t)"
  by (induction subs) (auto simp: type_block_def)

lemma get_loop_Some:
  "get_loop subs t = Some c \<Longrightarrow>
     \<exists>i < length subs. subs ! i = c \<and> m_type c = t \<and> (\<forall>j < i. m_type (subs ! j) \<noteq> t)"
proof (induction subs)
  case Nil
  then show ?case by simp
next
  case (Cons x rest)
  show ?case
  proof (cases "m_type x = t")
    case True
    with Cons.prems have "c = x" by (simp add: type_block_def)
    with True show ?thesis by (intro exI [of _ 0]) simp
  next
    case False
    with Cons.prems have "get_loop rest t = Some c" by (simp add: type_block_def)
    from Cons.IH [OF this] obtain i where
      i: "i < length rest" "rest ! i = c" "m_type c = t" "\<forall>j < i. m_type (rest ! j) \<noteq> t"
      by blast
    have "\<forall>j < Suc i. m_type ((x # rest) ! j) \<noteq> t"
      using False i(4) by (auto simp: nth_Cons split: nat.splits)
    with i show ?thesis by (intro exI [of _ "Suc i"]) simp
  qed
qed

lemma find_loop_None: "find_loop subs k t = None \<longleftrightarrow> (\<forall>c \<in> set subs. m_type c \<noteq> t)"
  by (induction subs arbitrary: k) (auto simp: type_block_def)

lemma find_loop_Some:
  "find_loop subs k t = Some n \<Longrightarrow>
     k \<le> n \<and> n - k < length subs \<and> get_loop subs t = Some (subs ! (n - k)) \<and>
     m_type (subs ! (n - k)) = t \<and> (\<forall>j < n - k. m_type (subs ! j) \<noteq> t)"
proof (induction subs arbitrary: k)
  case Nil
  then show ?case by simp
next
  case (Cons x rest)
  show ?case
  proof (cases "m_type x = t")
    case True
    with Cons.prems show ?thesis by (simp add: type_block_def)
  next
    case False
    with Cons.prems have "find_loop rest (Suc k) t = Some n" by (simp add: type_block_def)
    from Cons.IH [OF this] have ih:
      "Suc k \<le> n" "n - Suc k < length rest" "get_loop rest t = Some (rest ! (n - Suc k))"
      "m_type (rest ! (n - Suc k)) = t" "\<forall>j < n - Suc k. m_type (rest ! j) \<noteq> t"
      by blast+
    from ih(1) have nk: "n - k = Suc (n - Suc k)" by arith
    have "\<forall>j < n - k. m_type ((x # rest) ! j) \<noteq> t"
      using False ih(5) nk by (auto simp: nth_Cons split: nat.splits)
    with ih False nk show ?thesis by (simp add: type_block_def)
  qed
qed

lemma remove_loop_filter:
  "remove_loop subs t acc = acc @ filter (\<lambda>c. m_type c \<noteq> t) subs"
  by (induction subs arbitrary: acc) (simp_all add: type_block_def)

subsection \<open>Lookup: get and find\<close>

text \<open>
  C3. For every element and every type code \<open>t\<close>: when some child has type \<open>t\<close>, \<open>get\<close>
  returns the child at the least index whose type is \<open>t\<close> (the first in insertion order);
  \<open>get\<close> throws, with the not-found message of the header, exactly when no child has type
  \<open>t\<close>. The function reads \<open>m_subBlocks\<close> and assigns no member: it has no state result.
\<close>
theorem get_first_match:
  "((\<exists>c \<in> set (m_subBlocks b). m_type c = t) \<longrightarrow>
      (\<exists>i < length (m_subBlocks b).
         get b t = Inr (m_subBlocks b ! i) \<and> m_type (m_subBlocks b ! i) = t \<and>
         (\<forall>j < i. m_type (m_subBlocks b ! j) \<noteq> t)))
   \<and> ((\<exists>e. get b t = Inl e) \<longleftrightarrow> (\<forall>c \<in> set (m_subBlocks b). m_type c \<noteq> t))
   \<and> ((\<forall>c \<in> set (m_subBlocks b). m_type c \<noteq> t) \<longrightarrow> get b t = Inl (get_error t))"
proof (intro conjI impI)
  assume "\<exists>c \<in> set (m_subBlocks b). m_type c = t"
  then have "get_loop (m_subBlocks b) t \<noteq> None" by (simp add: get_loop_None)
  then obtain c where c: "get_loop (m_subBlocks b) t = Some c" by blast
  from get_loop_Some [OF c] obtain i where
    "i < length (m_subBlocks b)" "m_subBlocks b ! i = c" "m_type c = t"
    "\<forall>j < i. m_type (m_subBlocks b ! j) \<noteq> t"
    by blast
  with c show "\<exists>i < length (m_subBlocks b).
      get b t = Inr (m_subBlocks b ! i) \<and> m_type (m_subBlocks b ! i) = t \<and>
      (\<forall>j < i. m_type (m_subBlocks b ! j) \<noteq> t)"
    by (intro exI [of _ i]) (simp add: get_def)
next
  show "(\<exists>e. get b t = Inl e) \<longleftrightarrow> (\<forall>c \<in> set (m_subBlocks b). m_type c \<noteq> t)"
    using get_loop_None [of "m_subBlocks b" t]
    by (cases "get_loop (m_subBlocks b) t") (simp_all add: get_def)
next
  assume "\<forall>c \<in> set (m_subBlocks b). m_type c \<noteq> t"
  then have "get_loop (m_subBlocks b) t = None" by (simp add: get_loop_None)
  then show "get b t = Inl (get_error t)" by (simp add: get_def)
qed

theorem get_first_match_witness:
  "(\<exists>c \<in> set (m_subBlocks example_parent). m_type c = 1)
   \<and> get example_parent 1 = Inr (m_subBlocks example_parent ! 0)
   \<and> get example_parent 1 \<noteq> Inr (m_subBlocks example_parent ! 2)
   \<and> \<not> (\<exists>c \<in> set (m_subBlocks example_parent). m_type c = 7)
   \<and> get example_parent 7 =
       Inl (Error ''(Block::get) Requested a non-existed type [7] from Block'')"
  using get_first_match [of example_parent 1] get_first_match [of example_parent 7]
  by (simp add: example_parent_def example_children_def get_def type_block_def
      get_error_def lexical_cast_string.simps)

text \<open>
  C4. \<open>find\<close> runs the search of \<open>get\<close> and always returns an iterator: when some child has
  type \<open>t\<close> it is the position of the first such child, the one \<open>get\<close> returns; when none
  has, it is \<open>element_end\<close>.
\<close>
theorem find_first_match:
  "((\<exists>c \<in> set (m_subBlocks b). m_type c = t) \<longrightarrow>
      find_block b t < length (m_subBlocks b) \<and>
      m_type (m_subBlocks b ! find_block b t) = t \<and>
      (\<forall>j < find_block b t. m_type (m_subBlocks b ! j) \<noteq> t) \<and>
      get b t = Inr (m_subBlocks b ! find_block b t))
   \<and> ((\<forall>c \<in> set (m_subBlocks b). m_type c \<noteq> t) \<longrightarrow>
      find_block b t = element_end b \<and> get b t = Inl (get_error t))"
proof (intro conjI impI)
  assume "\<forall>c \<in> set (m_subBlocks b). m_type c \<noteq> t"
  then have "find_loop (m_subBlocks b) 0 t = None" "get_loop (m_subBlocks b) t = None"
    by (simp_all add: find_loop_None get_loop_None)
  then show "find_block b t = element_end b" "get b t = Inl (get_error t)"
    by (simp_all add: find_block_def element_begin_def get_def)
next
  assume "\<exists>c \<in> set (m_subBlocks b). m_type c = t"
  then have "find_loop (m_subBlocks b) 0 t \<noteq> None" by (simp add: find_loop_None)
  then obtain n where n: "find_loop (m_subBlocks b) 0 t = Some n" by blast
  then have fb: "find_block b t = n" by (simp add: find_block_def element_begin_def)
  from find_loop_Some [OF n] have
    "n < length (m_subBlocks b)" "get_loop (m_subBlocks b) t = Some (m_subBlocks b ! n)"
    "m_type (m_subBlocks b ! n) = t" "\<forall>j < n. m_type (m_subBlocks b ! j) \<noteq> t"
    by simp_all
  with fb show "find_block b t < length (m_subBlocks b)"
    "m_type (m_subBlocks b ! find_block b t) = t"
    "\<forall>j < find_block b t. m_type (m_subBlocks b ! j) \<noteq> t"
    "get b t = Inr (m_subBlocks b ! find_block b t)"
    by (simp_all add: get_def)
qed

theorem find_first_match_witness:
  "(\<exists>c \<in> set (m_subBlocks example_parent). m_type c = 2)
   \<and> find_block example_parent 2 = 1
   \<and> get example_parent 2 = Inr (m_subBlocks example_parent ! 1)
   \<and> find_block example_parent 1 = 0
   \<and> \<not> (\<exists>c \<in> set (m_subBlocks example_parent). m_type c = 7)
   \<and> find_block example_parent 7 = element_end example_parent
   \<and> element_end example_parent = 3"
  using find_first_match [of example_parent 2] find_first_match [of example_parent 7]
  by (simp add: example_parent_def example_children_def find_block_def element_begin_def
      element_end_def get_def type_block_def)

subsection \<open>Mutation: remove, push_back, reset\<close>

text \<open>
  C5. After \<open>remove(t)\<close> the child sequence is the original one filtered to the children
  whose type differs from \<open>t\<close>, in their original order; with no child of type \<open>t\<close> it
  is the original sequence.
\<close>
theorem remove_filters_children:
  "m_subBlocks (remove_block b t) = filter (\<lambda>c. m_type c \<noteq> t) (m_subBlocks b)
   \<and> ((\<forall>c \<in> set (m_subBlocks b). m_type c \<noteq> t) \<longrightarrow>
        m_subBlocks (remove_block b t) = m_subBlocks b)"
  by (cases b) (simp add: remove_loop_filter)

theorem remove_filters_children_witness:
  "m_subBlocks (remove_block example_parent 1) = [example_children ! 1]
   \<and> \<not> (\<exists>c \<in> set (m_subBlocks example_parent). m_type c = 7)
   \<and> m_subBlocks (remove_block example_parent 7) = m_subBlocks example_parent"
  using remove_filters_children [of example_parent 1]
    remove_filters_children [of example_parent 7]
  by (simp add: example_parent_def example_children_def)

text \<open>
  C9. \<open>push_back(c)\<close> on \<open>p\<close> appends \<open>c\<close> at the end of the child sequence of \<open>p\<close> and
  leaves the type, the buffer, both ranges and the size of \<open>p\<close> as they were.
\<close>
theorem push_back_frame:
  "m_subBlocks (push_back p c) = m_subBlocks p @ [c]
   \<and> m_type (push_back p c) = m_type p
   \<and> m_buffer (push_back p c) = m_buffer p
   \<and> m_begin (push_back p c) = m_begin p
   \<and> m_end (push_back p c) = m_end p
   \<and> m_value_begin (push_back p c) = m_value_begin p
   \<and> m_value_end (push_back p c) = m_value_end p
   \<and> m_size (push_back p c) = m_size p
   \<and> size_block (push_back p c) = size_block p
   \<and> hasWire (push_back p c) = hasWire p
   \<and> hasValue (push_back p c) = hasValue p"
  by (cases p) (simp add: size_block_def hasWire_def hasValue_def)

text \<open>
  C8. From any state, \<open>reset()\<close> leaves the empty element: the type is the sentinel
  \<open>2 ^ 32 - 1\<close>, the largest \<^verbatim>\<open>uint32_t\<close>, so \<open>empty()\<close> holds; the buffer pointer is null,
  so neither \<open>hasWire()\<close> nor \<open>hasValue()\<close> holds; and there are no children.
\<close>
theorem reset_gives_empty:
  "empty_block (reset b)
   \<and> m_type (reset b) = uint32_max \<and> unat uint32_max = 2 ^ 32 - 1
   \<and> (\<forall>t :: u32. t \<le> m_type (reset b))
   \<and> m_buffer (reset b) = None
   \<and> \<not> hasWire (reset b) \<and> \<not> hasValue (reset b)
   \<and> m_subBlocks (reset b) = []"
proof -
  have "(0xFFFFFFFF :: u32) = - 1" by simp
  then have "(t :: u32) \<le> 0xFFFFFFFF" for t by (simp only: word_n1_ge)
  then show ?thesis
    by (cases b) (simp add: empty_block_def hasWire_def hasValue_def uint32_max_def)
qed

subsection \<open>Accessors and their preconditions\<close>

text \<open>
  C6. With \<open>hasValue()\<close> false, \<open>value_size()\<close> returns 0 and does not throw. The accessors
  that dereference a buffer position throw instead: \<open>wire()\<close>, \<open>begin()\<close> and \<open>end()\<close> when
  \<open>hasWire()\<close> is false, \<open>value()\<close>, \<open>value_begin()\<close> and \<open>value_end()\<close> when \<open>hasValue()\<close> is
  false, each with the header's "buffer is empty" message.
\<close>
theorem accessor_preconditions:
  "(\<not> hasValue b \<longrightarrow> value_size b = Inr 0)
   \<and> (\<not> hasWire b \<longrightarrow>
        wire b = Inl (Error ''(Block::wire) Underlying wire buffer is empty'') \<and>
        begin_block b = Inl (Error ''Underlying wire buffer is empty'') \<and>
        end_block b = Inl (Error ''Underlying wire buffer is empty''))
   \<and> (\<not> hasValue b \<longrightarrow>
        value_block b = Inl (Error ''(Block::value) Underlying value buffer is empty'') \<and>
        value_begin b = Inl (Error ''(Block::value_begin) Underlying value buffer is empty'') \<and>
        value_end b = Inl (Error ''(Block::value_end) Underlying value buffer is empty''))"
  by (simp add: value_size_def wire_def begin_block_def end_block_def value_block_def
      value_begin_def value_end_def)

theorem accessor_preconditions_witness:
  "\<not> hasValue example_parent \<and> \<not> hasWire example_parent
   \<and> value_size example_parent = Inr 0
   \<and> wire example_parent = Inl (Error ''(Block::wire) Underlying wire buffer is empty'')
   \<and> begin_block example_parent = Inl (Error ''Underlying wire buffer is empty'')
   \<and> end_block example_parent = Inl (Error ''Underlying wire buffer is empty'')
   \<and> value_block example_parent = Inl (Error ''(Block::value) Underlying value buffer is empty'')
   \<and> value_begin example_parent =
       Inl (Error ''(Block::value_begin) Underlying value buffer is empty'')
   \<and> value_end example_parent =
       Inl (Error ''(Block::value_end) Underlying value buffer is empty'')"
  using accessor_preconditions [of example_parent]
  by (simp add: example_parent_def hasValue_def hasWire_def)

text \<open>
  C7. \<open>size()\<close> returns a byte length, the stored \<open>m_size\<close>, if and only if \<open>hasWire()\<close> or
  \<open>hasValue()\<close> holds; when neither holds it throws.
\<close>
theorem size_defined_iff:
  "((\<exists>n. size_block b = Inr n) \<longleftrightarrow> (hasWire b \<or> hasValue b))
   \<and> (hasWire b \<or> hasValue b \<longrightarrow> size_block b = Inr (ucast (m_size b)))
   \<and> (\<not> (hasWire b \<or> hasValue b) \<longrightarrow>
        size_block b = Inl (Error ''Block size cannot be determined (undefined block size)''))"
  by (simp add: size_block_def)

theorem size_defined_iff_witness:
  "hasWire example_encoded \<and> size_block example_encoded = Inr 9
   \<and> \<not> hasWire (example_children ! 0) \<and> hasValue (example_children ! 0)
   \<and> size_block (example_children ! 0) = Inr 5
   \<and> \<not> (hasWire example_parent \<or> hasValue example_parent)
   \<and> size_block example_parent =
       Inl (Error ''Block size cannot be determined (undefined block size)'')"
  using size_defined_iff [of example_encoded] size_defined_iff [of "example_children ! 0"]
    size_defined_iff [of example_parent]
  by (simp add: example_encoded_def example_children_def example_parent_def hasWire_def
      hasValue_def)

text \<open>
  C10. \<open>hasWire()\<close> implies \<open>hasValue()\<close>, for every value of the fields. So on no element
  do the wire accessors return while a value accessor throws.
\<close>
theorem hasWire_implies_hasValue:
  "(hasWire b \<longrightarrow> hasValue b)
   \<and> ((\<exists>p. wire b = Inr p) \<or> (\<exists>p. begin_block b = Inr p) \<or> (\<exists>p. end_block b = Inr p) \<longrightarrow>
        (\<exists>q. value_block b = Inr q) \<and> (\<exists>q. value_begin b = Inr q) \<and>
        (\<exists>q. value_end b = Inr q))"
  by (auto simp: hasWire_def hasValue_def wire_def begin_block_def end_block_def
      value_block_def value_begin_def value_end_def)

theorem hasWire_implies_hasValue_witness:
  "hasWire example_encoded \<and> hasValue example_encoded
   \<and> wire example_encoded = Inr (At 0)
   \<and> (\<exists>q. value_block example_encoded = Inr q)
   \<and> (\<exists>q. value_begin example_encoded = Inr q)
   \<and> (\<exists>q. value_end example_encoded = Inr q)"
  using hasWire_implies_hasValue [of example_encoded]
  by (simp add: example_encoded_def hasWire_def wire_def)

section \<open>Properties of the modelled codec\<close>

subsection \<open>VarNumber and header round trips\<close>


lemma length_be_bytes: "length (be_bytes k n) = k"
  by (induction k) simp_all



lemma varnumber_encode_length:
  "length (varnumber_encode n) =
     (if n \<le> 252 then 1 else if n \<le> 65535 then 3 else if n \<le> 2 ^ 32 - 1 then 5 else 9)"
  by (simp add: varnumber_encode_def length_be_bytes)

lemma varnumber_encode_nonempty: "0 < length (varnumber_encode n)"
  by (simp add: varnumber_encode_length)


















subsection \<open>Round trip of an element\<close>



end
